theory Spec2Isabelle
  imports Main "HOL-Library.Dlist"
begin

section \<open>Python strings\<close>

text \<open>
  A Python \<^verbatim>\<open>str\<close> is a sequence of Unicode code points; a code point is modelled as a
  natural number and a string as a list of them.  \<open>py\<close> turns an ASCII literal into such
  a string.
\<close>

type_synonym pystr = "nat list"

definition py :: "string \<Rightarrow> pystr" where
  "py s = map of_char s"

text \<open>
  \<^verbatim>\<open>str.strip()\<close> without argument removes the characters for which
  \<^verbatim>\<open>str.isspace\<close> holds: U+0009..U+000D, U+001C..U+0020, U+0085, U+00A0, U+1680,
  U+2000..U+200A, U+2028, U+2029, U+202F, U+205F and U+3000.
\<close>

definition isspace :: "nat \<Rightarrow> bool" where
  "isspace c \<longleftrightarrow>
     (9 \<le> c \<and> c \<le> 13) \<or> (28 \<le> c \<and> c \<le> 32) \<or> c = 133 \<or> c = 160 \<or> c = 5760 \<or>
     (8192 \<le> c \<and> c \<le> 8202) \<or> c = 8232 \<or> c = 8233 \<or> c = 8239 \<or> c = 8287 \<or> c = 12288"

definition strip :: "pystr \<Rightarrow> pystr" where
  "strip s = rev (dropWhile isspace (rev (dropWhile isspace s)))"

definition startswith :: "pystr \<Rightarrow> pystr \<Rightarrow> bool" where
  "startswith s p \<longleftrightarrow> take (length p) s = p"

text \<open>\<^verbatim>\<open>str(n)\<close> for an integer, as the f-strings of the programs format it.\<close>

fun str_nat :: "nat \<Rightarrow> pystr" where
  "str_nat n = (if n < 10 then [48 + n] else str_nat (n div 10) @ [48 + n mod 10])"

declare str_nat.simps [simp del]

definition str_int :: "int \<Rightarrow> pystr" where
  "str_int i = (if i < 0 then 45 # str_nat (nat (- i)) else str_nat (nat i))"


section \<open>Constants and topic normalisation\<close>

text \<open>
  \<^verbatim>\<open>BROKER\<close>, \<^verbatim>\<open>PORT\<close>, \<^verbatim>\<open>KEEPALIVE\<close> and \<^verbatim>\<open>normalize_topic\<close> are written out twice,
  identically, in \<^verbatim>\<open>subscriber.py\<close> and \<^verbatim>\<open>publisher.py\<close>; one definition stands for both.
  \<^verbatim>\<open>
  def normalize_topic(raw_hashtag: str) -> str:
      tag = raw_hashtag.strip()
      if tag.startswith("#"):
          tag = tag[1:].strip()
      if not tag:
          return ""
      return f"twitter/{tag}"
  \<close>
\<close>

definition BROKER :: pystr where
  "BROKER = py ''test.mosquitto.org''"

definition PORT :: int where
  "PORT = 1883"

definition KEEPALIVE :: int where
  "KEEPALIVE = 60"

definition normalize_topic :: "pystr \<Rightarrow> pystr" where
  "normalize_topic raw_hashtag =
     (let tag = strip raw_hashtag;
          tag = (if startswith tag (py ''#'') then strip (drop 1 tag) else tag)
      in if tag = [] then [] else py ''twitter/'' @ tag)"

text \<open>
  The reading of the specification's sentence on topic naming, taken word for word
  (strip, drop one leading \<^verbatim>\<open>#\<close>, strip again, prefix the namespace), for comparison with
  \<open>normalize_topic\<close>.
\<close>

definition normalize_topic_claimed :: "pystr \<Rightarrow> pystr" where
  "normalize_topic_claimed raw_hashtag =
     (let tag = strip raw_hashtag;
          tag = (if startswith tag (py ''#'') then strip (drop 1 tag) else tag)
      in py ''twitter/'' @ tag)"


section \<open>The environment: MQTT client and Tk\<close>

text \<open>
  Only exceptions derived from \<^verbatim>\<open>Exception\<close> are modelled, since these are what the
  programs' handlers catch: \<open>LibraryError m\<close> is an exception raised by the MQTT library
  or by a message attribute, with \<^verbatim>\<open>str(e) = m\<close>; \<open>KeyError k\<close> is what
  \<^verbatim>\<open>set.remove(k)\<close> raises for an absent element.
\<close>

datatype exn = LibraryError pystr | KeyError pystr

text \<open>
  The calls the programs make on \<^verbatim>\<open>self.client\<close>.  A \<open>transport\<close> is the behaviour of
  the client library: given the calls made so far and the next call, it says whether
  that call returns (\<open>None\<close>) or raises (\<open>Some e\<close>).
\<close>

datatype io =
    Connect pystr int int
  | LoopStart
  | LoopStop
  | Disconnect
  | Subscribe pystr
  | Unsubscribe pystr
  | Publish pystr pystr

type_synonym transport = "io list \<Rightarrow> io \<Rightarrow> exn option"

text \<open>
  Texts shown to the user: \<open>Str s\<close> is the string \<open>s\<close>, \<open>StrExn s e\<close> is the f-string
  \<^verbatim>\<open>f"<s>{e}"\<close> that ends with the text of the exception \<open>e\<close>.
\<close>

datatype ftext = Str pystr | StrExn pystr exn

datatype tk_call =
    ShowWarning pystr pystr
  | ShowInfo pystr pystr
  | ShowError pystr ftext
  | After nat

text \<open>
  What both application classes hold: the hashtag entry widget, the status label (the
  list of the texts it was given, oldest first, with the \<^verbatim>\<open>error\<close> flag that selects
  the colour), the calls made on the MQTT client and the dialog and timer calls made on
  Tk.  Tk calls are taken to succeed.
\<close>

record mqtt_app =
  hashtag_entry :: pystr
  status_label :: "(ftext \<times> bool) list"
  client :: "io list"
  tk :: "tk_call list"

definition update_status :: "ftext \<Rightarrow> bool \<Rightarrow> 'a mqtt_app_scheme \<Rightarrow> 'a mqtt_app_scheme" where
  "update_status txt error s = s\<lparr>status_label := status_label s @ [(txt, error)]\<rparr>"

definition messagebox :: "tk_call \<Rightarrow> 'a mqtt_app_scheme \<Rightarrow> 'a mqtt_app_scheme" where
  "messagebox c s = s\<lparr>tk := tk s @ [c]\<rparr>"

definition client_call ::
  "transport \<Rightarrow> io \<Rightarrow> 'a mqtt_app_scheme \<Rightarrow> exn option \<times> 'a mqtt_app_scheme" where
  "client_call tr c s = (tr (client s) c, s\<lparr>client := client s @ [c]\<rparr>)"

text \<open>
  The body of the thread that \<^verbatim>\<open>connect_in_thread\<close> starts, the disconnect callback and
  \<^verbatim>\<open>on_close\<close> are the same in both classes.  The thread body is modelled as one step;
  the final \<^verbatim>\<open>self.root.destroy()\<close> of \<^verbatim>\<open>on_close\<close> ends the program and is left out.
\<close>

definition connect_in_thread :: "transport \<Rightarrow> 'a mqtt_app_scheme \<Rightarrow> 'a mqtt_app_scheme" where
  "connect_in_thread tr s =
     (case client_call tr (Connect BROKER PORT KEEPALIVE) s of
        (Some e, s1) \<Rightarrow> update_status (StrExn (py ''Connect error: '') e) True s1
      | (None, s1) \<Rightarrow>
          (case client_call tr LoopStart s1 of
             (Some e, s2) \<Rightarrow> update_status (StrExn (py ''Connect error: '') e) True s2
           | (None, s2) \<Rightarrow> s2))"

definition on_disconnect :: "int \<Rightarrow> 'a mqtt_app_scheme \<Rightarrow> 'a mqtt_app_scheme" where
  "on_disconnect rc s = update_status (Str (py ''Disconnected'')) True s"

definition on_close :: "transport \<Rightarrow> 'a mqtt_app_scheme \<Rightarrow> 'a mqtt_app_scheme" where
  "on_close tr s =
     (case client_call tr LoopStop s of
        (Some e, s1) \<Rightarrow> s1
      | (None, s1) \<Rightarrow> snd (client_call tr Disconnect s1))"


section \<open>The subscriber\<close>

text \<open>
  \<^verbatim>\<open>self.subscribed\<close> is a Python set, modelled as a duplicate-free list; the order in
  which \<^verbatim>\<open>list(self.subscribed)\<close> enumerates it is the order of that list.
  \<^verbatim>\<open>self.msg_queue\<close> is an unbounded \<^verbatim>\<open>queue.Queue()\<close>: \<^verbatim>\<open>put\<close> appends at the back,
  \<^verbatim>\<open>get\<close> takes from the front.  \<^verbatim>\<open>messages_box\<close> is the list of the texts inserted at
  the end of the text widget.
\<close>

record subscriber_app = mqtt_app +
  messages_box :: "pystr list"
  subscribed :: "pystr dlist"
  msg_queue :: "(pystr \<times> pystr) list"

definition subscriber_init :: subscriber_app where
  "subscriber_init =
     \<lparr>hashtag_entry = py ''#test'',
      status_label = [(Str (py ''Disconnected''), True)],
      client = [],
      tk = [After 200],
      messages_box = [],
      subscribed = Dlist.empty,
      msg_queue = []\<rparr>"

definition set_remove :: "pystr dlist \<Rightarrow> pystr \<Rightarrow> exn + pystr dlist" where
  "set_remove S x = (if Dlist.member S x then Inr (Dlist.remove x S) else Inl (KeyError x))"

definition put :: "pystr \<times> pystr \<Rightarrow> subscriber_app \<Rightarrow> subscriber_app" where
  "put item s = s\<lparr>msg_queue := msg_queue s @ [item]\<rparr>"

text \<open>
  \<^verbatim>\<open>
  for t in list(self.subscribed):
      try:
          self.client.subscribe(t)
          self.update_status(f"Subscribed to {t}", error=False)
      except Exception:
          pass
  \<close>
\<close>

fun resubscribe :: "transport \<Rightarrow> pystr list \<Rightarrow> subscriber_app \<Rightarrow> subscriber_app" where
  "resubscribe tr [] s = s"
| "resubscribe tr (t # ts) s =
     (case client_call tr (Subscribe t) s of
        (Some e, s1) \<Rightarrow> resubscribe tr ts s1
      | (None, s1) \<Rightarrow>
          resubscribe tr ts (update_status (Str (py ''Subscribed to '' @ t)) False s1))"

definition on_connect :: "transport \<Rightarrow> int \<Rightarrow> subscriber_app \<Rightarrow> subscriber_app" where
  "on_connect tr rc s =
     (if rc = 0 then
        resubscribe tr (list_of_dlist (subscribed s))
          (update_status (Str (py ''Connected to '' @ BROKER @ py '':'' @ str_int PORT)) False s)
      else
        update_status (Str (py ''Connect failed (rc='' @ str_int rc @ py '')'')) True s)"

text \<open>
  An inbound message, as \<^verbatim>\<open>on_message\<close> uses it: what evaluating
  \<^verbatim>\<open>msg.payload.decode("utf-8", errors="ignore")\<close> gives and what evaluating
  \<^verbatim>\<open>msg.topic\<close> gives, each either a string or an exception.
\<close>

record mqtt_msg =
  msg_payload :: "exn + pystr"
  msg_topic :: "exn + pystr"

definition inbound :: "pystr \<Rightarrow> pystr \<Rightarrow> mqtt_msg" where
  "inbound t p = \<lparr>msg_payload = Inr p, msg_topic = Inr t\<rparr>"

text \<open>The statements inside the \<^verbatim>\<open>try\<close> of \<^verbatim>\<open>on_message\<close>, then the whole callback.\<close>

definition on_message_try :: "mqtt_msg \<Rightarrow> subscriber_app \<Rightarrow> exn + subscriber_app" where
  "on_message_try msg s =
     (case msg_payload msg of
        Inl e \<Rightarrow> Inl e
      | Inr payload \<Rightarrow>
          (case msg_topic msg of
             Inl e \<Rightarrow> Inl e
           | Inr topic \<Rightarrow> Inr (put (topic, payload) s)))"

definition on_message :: "mqtt_msg \<Rightarrow> subscriber_app \<Rightarrow> exn + subscriber_app" where
  "on_message msg s =
     (case on_message_try msg s of
        Inl e \<Rightarrow> Inr s
      | Inr s1 \<Rightarrow> Inr s1)"

text \<open>
  The network loop of the client library calls \<^verbatim>\<open>on_message\<close> once for every inbound
  message, in order of arrival; an exception that left the callback would end the run.
\<close>

fun receive_all :: "mqtt_msg list \<Rightarrow> subscriber_app \<Rightarrow> exn + subscriber_app" where
  "receive_all [] s = Inr s"
| "receive_all (m # ms) s =
     (case on_message m s of
        Inl e \<Rightarrow> Inl e
      | Inr s1 \<Rightarrow> receive_all ms s1)"

text \<open>
  \<^verbatim>\<open>
  while not self.msg_queue.empty():
      topic, payload = self.msg_queue.get()
      ts = time.strftime("%Y-%m-%d %H:%M:%S")
      display = f"[{ts}] {topic} <U+2014> {payload}\n"
      ... self.messages_box.insert(tk.END, display) ...
  self.root.after(200, self.process_queue)
  \<close>
  \<open>strftime k\<close> is the time stamp that the clock gives in round \<open>k\<close> of the loop; the
  dash of the format string is U+2014.
\<close>

definition display :: "pystr \<Rightarrow> pystr \<Rightarrow> pystr \<Rightarrow> pystr" where
  "display ts topic payload =
     py ''['' @ ts @ py ''] '' @ topic @ [32, 8212, 32] @ payload @ [10]"

function process_queue_loop ::
  "(nat \<Rightarrow> pystr) \<Rightarrow> nat \<Rightarrow> subscriber_app \<Rightarrow> subscriber_app" where
  "process_queue_loop strftime k s =
     (if msg_queue s = [] then s
      else
        (let item = hd (msg_queue s);
             s1 = s\<lparr>msg_queue := tl (msg_queue s)\<rparr>;
             topic = fst item;
             payload = snd item;
             ts = strftime k;
             s2 = s1\<lparr>messages_box := messages_box s1 @ [display ts topic payload]\<rparr>
         in process_queue_loop strftime (Suc k) s2))"
  by pat_completeness auto

termination
  by (relation "measure (\<lambda>(strftime, k, s). length (msg_queue s))") auto

declare process_queue_loop.simps [simp del]

definition process_queue :: "(nat \<Rightarrow> pystr) \<Rightarrow> subscriber_app \<Rightarrow> subscriber_app" where
  "process_queue strftime s = messagebox (After 200) (process_queue_loop strftime 0 s)"

definition subscribe :: "transport \<Rightarrow> subscriber_app \<Rightarrow> subscriber_app" where
  "subscribe tr s =
     (let raw = strip (hashtag_entry s);
          topic = normalize_topic raw
      in if topic = [] then
           messagebox (ShowWarning (py ''Empty hashtag'')
             (py ''Please enter a hashtag/topic to subscribe to (e.g. #python).'')) s
         else if Dlist.member (subscribed s) topic then
           messagebox (ShowInfo (py ''Already subscribed'')
             (py ''Already subscribed to '' @ topic @ py ''.'')) s
         else
           (case client_call tr (Subscribe topic) s of
              (Some e, s1) \<Rightarrow>
                update_status (StrExn (py ''Subscribe error: '') e) True
                  (messagebox (ShowError (py ''Subscribe error'')
                     (StrExn (py ''Failed to subscribe: '') e)) s1)
            | (None, s1) \<Rightarrow>
                put (topic, py ''[System] Subscribed'')
                  (update_status (Str (py ''Subscribed to '' @ topic)) False
                     (s1\<lparr>subscribed := Dlist.insert topic (subscribed s1)\<rparr>))))"

definition unsubscribe_except :: "exn \<Rightarrow> subscriber_app \<Rightarrow> subscriber_app" where
  "unsubscribe_except e s =
     update_status (StrExn (py ''Unsubscribe error: '') e) True
       (messagebox (ShowError (py ''Unsubscribe error'')
          (StrExn (py ''Failed to unsubscribe: '') e)) s)"

definition unsubscribe :: "transport \<Rightarrow> subscriber_app \<Rightarrow> subscriber_app" where
  "unsubscribe tr s =
     (let raw = strip (hashtag_entry s);
          topic = normalize_topic raw
      in if topic = [] then
           messagebox (ShowWarning (py ''Empty hashtag'')
             (py ''Please enter a hashtag/topic to unsubscribe from (e.g. #python).'')) s
         else if \<not> Dlist.member (subscribed s) topic then
           messagebox (ShowInfo (py ''Not subscribed'')
             (py ''You're not subscribed to '' @ topic @ py ''.'')) s
         else
           (case client_call tr (Unsubscribe topic) s of
              (Some e, s1) \<Rightarrow> unsubscribe_except e s1
            | (None, s1) \<Rightarrow>
                (case set_remove (subscribed s1) topic of
                   Inl e \<Rightarrow> unsubscribe_except e s1
                 | Inr S \<Rightarrow>
                     put (topic, py ''[System] Unsubscribed'')
                       (update_status (Str (py ''Unsubscribed from '' @ topic)) False
                          (s1\<lparr>subscribed := S\<rparr>)))))"


section \<open>The publisher\<close>

text \<open>
  \<open>tweet_text\<close> is the content of the text widget; \<^verbatim>\<open>get("1.0", tk.END)\<close> returns it
  followed by the newline that a Tk text widget always ends with.
\<close>

record publisher_app = mqtt_app +
  username_entry :: pystr
  tweet_text :: pystr

definition publisher_init :: publisher_app where
  "publisher_init =
     \<lparr>hashtag_entry = py ''#test'',
      status_label = [(Str (py ''Disconnected''), True)],
      client = [],
      tk = [],
      username_entry = py ''anon_user'',
      tweet_text = []\<rparr>"

definition publisher_on_connect :: "int \<Rightarrow> publisher_app \<Rightarrow> publisher_app" where
  "publisher_on_connect rc s =
     (if rc = 0 then
        update_status (Str (py ''Connected to '' @ BROKER @ py '':'' @ str_int PORT)) False s
      else
        update_status (Str (py ''Connect failed (rc='' @ str_int rc @ py '')'')) True s)"

definition publish_tweet :: "transport \<Rightarrow> publisher_app \<Rightarrow> publisher_app" where
  "publish_tweet tr s =
     (let username = strip (username_entry s);
          message = strip (tweet_text s @ [10]);
          raw_hashtag = strip (hashtag_entry s);
          topic = normalize_topic raw_hashtag
      in if username = [] then
           messagebox (ShowWarning (py ''Missing username'') (py ''Please enter a username.'')) s
         else if message = [] then
           messagebox (ShowWarning (py ''Empty tweet'') (py ''Please write a tweet message.'')) s
         else if topic = [] then
           messagebox (ShowWarning (py ''Empty hashtag'')
             (py ''Please enter a hashtag/topic (e.g. #python).'')) s
         else
           (let payload = username @ py '': '' @ message
            in case client_call tr (Publish topic payload) s of
                 (Some e, s1) \<Rightarrow>
                   update_status (StrExn (py ''Publish error: '') e) True
                     (messagebox (ShowError (py ''Publish error'')
                        (StrExn (py ''Failed to publish: '') e)) s1)
               | (None, s1) \<Rightarrow>
                   (update_status (Str (py ''Published to '' @ topic)) False s1)
                     \<lparr>tweet_text := []\<rparr>))"


section \<open>Auxiliary notions for the statements\<close>

text \<open>
  What \<^verbatim>\<open>on_message\<close> puts on the queue for one inbound message: the pair of topic and
  payload when both attributes can be read, nothing otherwise.
\<close>

definition pushed :: "mqtt_msg \<Rightarrow> (pystr \<times> pystr) list" where
  "pushed msg =
     (case msg_payload msg of
        Inl e \<Rightarrow> []
      | Inr payload \<Rightarrow> (case msg_topic msg of Inl e \<Rightarrow> [] | Inr topic \<Rightarrow> [(topic, payload)]))"

text \<open>Two client libraries for the examples: one whose calls all return, one whose calls all raise.\<close>

definition no_raise :: transport where
  "no_raise calls c = None"

definition always_raise :: transport where
  "always_raise calls c = Some (LibraryError (py ''boom''))"


section \<open>Properties of \<open>strip\<close> and \<open>normalize_topic\<close>\<close>

lemma dropWhile_hd_id: "xs \<noteq> [] \<Longrightarrow> \<not> P (hd xs) \<Longrightarrow> dropWhile P xs = xs"
  by (cases xs) simp_all

lemma dropWhile_blank: "\<forall>c\<in>set l. P c \<Longrightarrow> dropWhile P (l @ xs) = dropWhile P xs"
  by (induction l) simp_all

lemma dropWhile_all_iff: "(\<forall>x\<in>set (dropWhile P xs). P x) \<longleftrightarrow> (\<forall>x\<in>set xs. P x)"
  by (induction xs) simp_all

text \<open>
  \<open>strip\<close> returns the middle of a string that is blank on both sides of a part which
  begins and ends with a character that is not white space.
\<close>

lemma strip_sandwich:
  assumes l: "\<forall>c\<in>set l. isspace c" and r: "\<forall>c\<in>set r. isspace c"
    and b: "body \<noteq> []" "\<not> isspace (hd body)" "\<not> isspace (last body)"
  shows "strip (l @ body @ r) = body"
proof -
  have "dropWhile isspace (l @ body @ r) = body @ r"
    using l b by (simp add: dropWhile_blank dropWhile_hd_id)
  moreover have "dropWhile isspace (rev r @ rev body) = rev body"
    using r b by (simp add: dropWhile_blank dropWhile_hd_id hd_rev)
  ultimately show ?thesis by (simp add: strip_def)
qed

lemma strip_Nil_iff: "strip s = [] \<longleftrightarrow> (\<forall>c\<in>set s. isspace c)"
  by (simp add: strip_def dropWhile_eq_Nil_conv dropWhile_all_iff)

lemma strip_blank: "\<forall>c\<in>set l. isspace c \<Longrightarrow> strip l = []"
  by (simp add: strip_Nil_iff)

lemma strip_ends:
  assumes "strip s \<noteq> []"
  shows "\<not> isspace (hd (strip s))" and "\<not> isspace (last (strip s))"
proof -
  let ?a = "dropWhile isspace s"
  let ?b = "dropWhile isspace (rev ?a)"
  from assms have b: "?b \<noteq> []" by (simp add: strip_def)
  have a: "?a \<noteq> []"
  proof
    assume "?a = []"
    then have "?b = []" by (simp add: dropWhile_all_iff)
    with b show False by simp
  qed
  have "last (strip s) = hd ?b" using b by (simp add: strip_def last_rev)
  then show "\<not> isspace (last (strip s))" using b hd_dropWhile [of isspace "rev ?a"] by simp
  have "last ?b = last (rev ?a)"
    using b by (metis takeWhile_dropWhile_id last_appendR)
  then have "hd (strip s) = hd ?a" using a b by (simp add: strip_def hd_rev last_rev)
  then show "\<not> isspace (hd (strip s))" using a hd_dropWhile [of isspace s] by simp
qed

text \<open>Every string is its stripped part between two blank parts.\<close>

lemma strip_decompose:
  "\<exists>l r. s = l @ strip s @ r \<and> (\<forall>c\<in>set l. isspace c) \<and> (\<forall>c\<in>set r. isspace c)"
proof -
  let ?a = "dropWhile isspace s"
  let ?b = "dropWhile isspace (rev ?a)"
  have 1: "s = takeWhile isspace s @ ?a" by simp
  have "rev ?a = takeWhile isspace (rev ?a) @ ?b" by simp
  then have "?a = rev ?b @ rev (takeWhile isspace (rev ?a))"
    by (metis rev_append rev_rev_ident)
  then have 2: "?a = strip s @ rev (takeWhile isspace (rev ?a))" by (simp add: strip_def)
  have 3: "\<forall>c\<in>set (takeWhile isspace s). isspace c" by (auto dest: set_takeWhileD)
  have 4: "\<forall>c\<in>set (rev (takeWhile isspace (rev ?a))). isspace c" by (auto dest: set_takeWhileD)
  from 1 2 have "s = takeWhile isspace s @ strip s @ rev (takeWhile isspace (rev ?a))" by metis
  with 3 4 show ?thesis by blast
qed

lemma strip_strip: "strip (strip s) = strip s"
proof (cases "strip s = []")
  case True
  then show ?thesis using strip_blank [of "[]"] by simp
next
  case False
  then show ?thesis
    using strip_sandwich [of "[]" "[]" "strip s"] strip_ends [of s] by simp
qed

text \<open>
  The callers strip the entry text before they pass it to \<open>normalize_topic\<close>, which strips
  again; the first strip changes nothing.
\<close>

lemma normalize_topic_strip: "normalize_topic (strip raw) = normalize_topic raw"
  by (simp add: normalize_topic_def strip_strip)

lemma startswith_hash: "startswith s (py ''#'') \<longleftrightarrow> (\<exists>rest. s = 35 # rest)"
  by (cases s) (auto simp: startswith_def py_def)

lemma not_isspace_hash: "\<not> isspace 35"
  by (simp add: isspace_def)

text \<open>The inputs that normalise to the empty string: blank ones, and a lone \<^verbatim>\<open>#\<close> between blanks.\<close>

lemma normalize_topic_Nil_iff:
  "normalize_topic raw = [] \<longleftrightarrow> strip raw = [] \<or> strip raw = py ''#''"
proof (cases "strip raw")
  case Nil
  then show ?thesis by (simp add: normalize_topic_def startswith_def py_def)
next
  case (Cons c rest)
  show ?thesis
  proof (cases "c = 35")
    case False
    with Cons show ?thesis
      by (simp add: normalize_topic_def startswith_def py_def Let_def)
  next
    case True
    have "strip rest = [] \<longleftrightarrow> rest = []"
    proof
      assume e: "strip rest = []"
      show "rest = []"
      proof (rule ccontr)
        assume ne: "rest \<noteq> []"
        then have "last (strip raw) = last rest" using Cons by simp
        moreover have "isspace (last rest)" using e ne by (simp add: strip_Nil_iff)
        ultimately show False using strip_ends(2) [of raw] Cons by simp
      qed
    qed (simp add: strip_def)
    with Cons True show ?thesis
      by (simp add: normalize_topic_def startswith_def py_def Let_def)
  qed
qed

lemma normalize_topic_claimed_agrees:
  "normalize_topic raw \<noteq> [] \<Longrightarrow> normalize_topic raw = normalize_topic_claimed raw"
  by (simp add: normalize_topic_def normalize_topic_claimed_def Let_def split: if_splits)

lemma twitter_test: "normalize_topic (py ''#test'') = py ''twitter/test''"
  by (simp add: normalize_topic_def py_def strip_def startswith_def isspace_def)

lemma strip_hash_test: "strip (py ''#test'') = py ''#test''"
  by (simp add: py_def strip_def isspace_def)


section \<open>Topic normalisation (C1)\<close>

text \<open>
  C1, as amended.  For every input that is blank, then \<^verbatim>\<open>#\<close>, then blank, then a non-empty
  body that begins and ends with a character that is not white space, then blank,
  \<open>normalize_topic\<close> returns \<^verbatim>\<open>twitter/\<close> followed by the body: the surrounding white space,
  exactly one leading \<^verbatim>\<open>#\<close> and the white space after it are removed, and a body that itself
  begins with \<^verbatim>\<open>#\<close> keeps it.  The same holds without the \<^verbatim>\<open>#\<close> when the body does not
  begin with one.  When nothing is left after stripping (a blank input, or a lone \<^verbatim>\<open>#\<close>
  between blanks), the result is the empty string and no namespace is prefixed.
\<close>

theorem normalize_topic_strips_one_hash:
  assumes "\<forall>c\<in>set l. isspace c" and "\<forall>c\<in>set m. isspace c" and "\<forall>c\<in>set r. isspace c"
    and "body \<noteq> []" and "\<not> isspace (hd body)" and "\<not> isspace (last body)"
  shows "normalize_topic (l @ py ''#'' @ m @ body @ r) = py ''twitter/'' @ body \<and>
         (hd body \<noteq> 35 \<longrightarrow> normalize_topic (l @ body @ r) = py ''twitter/'' @ body) \<and>
         normalize_topic l = [] \<and>
         normalize_topic (l @ py ''#'' @ m) = []"
proof (intro conjI)
  have "strip (l @ (35 # m @ body) @ r) = 35 # m @ body"
    using assms by (intro strip_sandwich) (simp_all add: not_isspace_hash)
  moreover have "strip (m @ body @ []) = body"
    using assms by (intro strip_sandwich) simp_all
  ultimately show "normalize_topic (l @ py ''#'' @ m @ body @ r) = py ''twitter/'' @ body"
    using assms(4) by (simp add: normalize_topic_def startswith_def py_def)
next
  show "hd body \<noteq> 35 \<longrightarrow> normalize_topic (l @ body @ r) = py ''twitter/'' @ body"
  proof
    assume h: "hd body \<noteq> 35"
    have "strip (l @ body @ r) = body" using assms by (intro strip_sandwich) simp_all
    moreover have "\<not> startswith body (py ''#'')" using h assms(4) by (auto simp: startswith_hash)
    ultimately show "normalize_topic (l @ body @ r) = py ''twitter/'' @ body"
      using assms(4) by (simp add: normalize_topic_def)
  qed
next
  show "normalize_topic l = []"
    using assms(1) by (simp add: normalize_topic_Nil_iff strip_blank)
next
  have "strip (l @ [35] @ m) = [35]"
    using assms by (intro strip_sandwich) (simp_all add: not_isspace_hash)
  then show "normalize_topic (l @ py ''#'' @ m) = []"
    by (simp add: normalize_topic_Nil_iff py_def)
qed

text \<open>
  The theorem at \<^verbatim>\<open>"  #Test  "\<close>, at \<^verbatim>\<open>"##a"\<close> (the second \<^verbatim>\<open>#\<close> stays) and at
  \<^verbatim>\<open>" a b "\<close> (no \<^verbatim>\<open>#\<close>; inner white space stays).
\<close>

theorem normalize_topic_strips_one_hash_witness:
  "normalize_topic (py ''  #Test  '') = py ''twitter/Test'' \<and>
   normalize_topic (py ''##a'') = py ''twitter/#a'' \<and>
   normalize_topic (py '' a b '') = py ''twitter/a b''"
  using normalize_topic_strips_one_hash [of "py ''  ''" "[]" "py ''  ''" "py ''Test''"]
    normalize_topic_strips_one_hash [of "[]" "[]" "[]" "py ''#a''"]
    normalize_topic_strips_one_hash [of "py '' ''" "[]" "py '' ''" "py ''a b''"]
  by (simp add: py_def isspace_def)

text \<open>
  C1 as stated fails at the input \<^verbatim>\<open>"#"\<close>: stripping and prefixing would give
  \<^verbatim>\<open>"twitter/"\<close>, the program returns the empty string.
\<close>

theorem normalize_topic_lone_hash_counterexample:
  "normalize_topic (py ''#'') = [] \<and> normalize_topic_claimed (py ''#'') = py ''twitter/'' \<and>
   normalize_topic (py ''#'') \<noteq> normalize_topic_claimed (py ''#'')"
  by (simp add: normalize_topic_def normalize_topic_claimed_def py_def strip_def startswith_def
      isspace_def)


section \<open>Replay of the subscriptions on connect (C2)\<close>

lemma resubscribe_client: "client (resubscribe tr ts s) = client s @ map Subscribe ts"
  by (induction ts arbitrary: s)
     (simp_all add: client_call_def update_status_def split: option.splits)

lemma resubscribe_subscribed: "subscribed (resubscribe tr ts s) = subscribed s"
  by (induction ts arbitrary: s)
     (simp_all add: client_call_def update_status_def split: option.splits)

lemma count_list_Subscribe:
  "distinct ts \<Longrightarrow> count_list (map Subscribe ts) (Subscribe t) = (if t \<in> set ts then 1 else 0)"
  by (induction ts) auto

text \<open>
  C2.  In the connect callback with \<^verbatim>\<open>rc == 0\<close>, whatever the client library does (any
  of its calls may raise), the calls made on the client during the callback are exactly
  one \<^verbatim>\<open>subscribe\<close> per element of the subscribed set: every subscribed topic is
  subscribed once, no other topic is, and an exception of one call does not stop the
  calls for the other topics.  The subscribed set itself is left as it was.
\<close>

theorem on_connect_resubscribes_each_once:
  "client (on_connect tr 0 s) = client s @ map Subscribe (list_of_dlist (subscribed s)) \<and>
   count_list (drop (length (client s)) (client (on_connect tr 0 s))) (Subscribe t) =
     (if Dlist.member (subscribed s) t then 1 else 0) \<and>
   subscribed (on_connect tr 0 s) = subscribed s"
  by (simp add: on_connect_def resubscribe_client resubscribe_subscribed update_status_def
      count_list_Subscribe Dlist.member_def)


section \<open>The message queue (C3, C5, C9)\<close>

lemma on_message_eq: "on_message msg s = Inr (s\<lparr>msg_queue := msg_queue s @ pushed msg\<rparr>)"
  by (simp add: on_message_def on_message_try_def pushed_def put_def split: sum.splits)

lemma receive_all_eq:
  "receive_all ms s = Inr (s\<lparr>msg_queue := msg_queue s @ concat (map pushed ms)\<rparr>)"
  by (induction ms arbitrary: s) (simp_all add: on_message_eq)

lemma pushed_inbound: "concat (map pushed (map (\<lambda>(t, p). inbound t p) items)) = items"
  by (induction items) (auto simp: pushed_def inbound_def)

text \<open>
  One run of \<^verbatim>\<open>process_queue\<close> inserts one line per queued item, front of the queue
  first, and leaves the queue empty.
\<close>

lemma process_queue_loop_box:
  "messages_box (process_queue_loop strftime k s) =
     messages_box s @
     map (\<lambda>(i, topic, payload). display (strftime i) topic payload) (enumerate k (msg_queue s))"
proof (induction strftime k s rule: process_queue_loop.induct)
  case (1 strftime k s)
  show ?case
  proof (cases "msg_queue s")
    case Nil
    then show ?thesis by (simp add: process_queue_loop.simps [of strftime k s])
  next
    case (Cons item rest)
    then show ?thesis
      using "1.IH" [OF _ refl refl refl refl refl refl]
      by (simp add: process_queue_loop.simps [of strftime k s] Let_def split: prod.splits)
  qed
qed

lemma process_queue_loop_queue: "msg_queue (process_queue_loop strftime k s) = []"
proof (induction strftime k s rule: process_queue_loop.induct)
  case (1 strftime k s)
  show ?case
  proof (cases "msg_queue s")
    case Nil
    then show ?thesis by (simp add: process_queue_loop.simps [of strftime k s])
  next
    case (Cons item rest)
    then show ?thesis
      using "1.IH" [OF _ refl refl refl refl refl refl]
      by (simp add: process_queue_loop.simps [of strftime k s] Let_def)
  qed
qed

text \<open>
  C3.  The queue is one FIFO for all topics.  After the receive callback has run for the
  messages \<open>ms\<close>, the queue holds what was in it before, followed by the pushed items in
  the order of the calls; the next run of the consumer takes all of them from the front
  and shows them in exactly that order, whatever their topics, and empties the queue.
\<close>

theorem queue_is_fifo:
  "\<exists>s1. receive_all ms s = Inr s1 \<and>
     msg_queue s1 = msg_queue s @ concat (map pushed ms) \<and>
     messages_box (process_queue strftime s1) =
       messages_box s @
       map (\<lambda>(k, topic, payload). display (strftime k) topic payload)
         (enumerate 0 (msg_queue s @ concat (map pushed ms))) \<and>
     msg_queue (process_queue strftime s1) = []"
  by (simp add: receive_all_eq process_queue_def messagebox_def process_queue_loop_box
      process_queue_loop_queue)

text \<open>The example of the specification: m1 on topic A, m2 on topic B, m3 on topic A.\<close>

lemma fifo_three_messages:
  "\<exists>s1. receive_all [inbound A m1, inbound B m2, inbound A m3] subscriber_init = Inr s1 \<and>
     messages_box (process_queue strftime s1) =
       [display (strftime 0) A m1, display (strftime 1) B m2, display (strftime 2) A m3]"
  by (simp add: receive_all_eq process_queue_def messagebox_def process_queue_loop_box
      pushed_def inbound_def subscriber_init_def enumerate_eq_zip upt_rec numeral_nat)

text \<open>
  C5, as amended.  The queue is a \<^verbatim>\<open>queue.Queue()\<close> without \<^verbatim>\<open>maxsize\<close>: it has no
  capacity, keeps every message and counts no drops.  For every number of readable
  messages pushed with no pop in between, the queue afterwards is the queue before
  followed by all of them in push order, and nothing else of the application state
  changes; a push always returns.
\<close>

theorem queue_is_unbounded:
  "receive_all (map (\<lambda>(topic, payload). inbound topic payload) items) s =
     Inr (s\<lparr>msg_queue := msg_queue s @ items\<rparr>)"
  using receive_all_eq [of "map (\<lambda>(topic, payload). inbound topic payload) items" s]
    pushed_inbound [of items]
  by simp

text \<open>
  C5 as stated fails for a capacity of two: after three pushes with no pop the first
  message is still at the front of the queue.
\<close>

theorem queue_overflow_counterexample:
  "receive_all [inbound (py ''A'') (py ''1''), inbound (py ''A'') (py ''2''),
                inbound (py ''A'') (py ''3'')] subscriber_init =
     Inr (subscriber_init\<lparr>msg_queue :=
            [(py ''A'', py ''1''), (py ''A'', py ''2''), (py ''A'', py ''3'')]\<rparr>)"
  by (simp add: on_message_def on_message_try_def put_def inbound_def subscriber_init_def)

text \<open>
  C9.  The receive callback returns normally for every inbound message and every state:
  it never ends with an exception.  When reading the payload or the topic raises, the
  exception is swallowed and the state is left as it was; otherwise the item is queued.
\<close>

theorem on_message_never_raises:
  "on_message msg s = Inr (s\<lparr>msg_queue := msg_queue s @ pushed msg\<rparr>) \<and>
   on_message msg s \<noteq> Inl e \<and>
   (on_message_try msg s = Inl e \<longrightarrow> on_message msg s = Inr s)"
  by (auto simp: on_message_def on_message_try_def pushed_def put_def split: sum.splits)

text \<open>The theorem at a message whose payload cannot be decoded.\<close>

theorem on_message_never_raises_witness:
  "on_message_try \<lparr>msg_payload = Inl (LibraryError (py ''bad'')), msg_topic = Inr (py ''A'')\<rparr>
     subscriber_init = Inl (LibraryError (py ''bad'')) \<and>
   on_message \<lparr>msg_payload = Inl (LibraryError (py ''bad'')), msg_topic = Inr (py ''A'')\<rparr>
     subscriber_init = Inr subscriber_init"
  using on_message_never_raises
    [of "\<lparr>msg_payload = Inl (LibraryError (py ''bad'')), msg_topic = Inr (py ''A'')\<rparr>"
        subscriber_init "LibraryError (py ''bad'')"]
  by (simp add: on_message_try_def pushed_def)


section \<open>Publishing (C4)\<close>

lemma strip_anon_user: "strip (py ''anon_user'') = py ''anon_user''"
  by (simp add: py_def strip_def isspace_def)

lemma strip_hi: "strip (py ''hi'' @ [10]) = py ''hi''"
  by (simp add: py_def strip_def isspace_def)

text \<open>
  C4, as amended.  The publisher keeps no connection state and \<^verbatim>\<open>publish_tweet\<close> returns
  no error value.  Whenever the user name, the message and the normalised topic are not
  empty, it calls the client's \<^verbatim>\<open>publish\<close> exactly once, with the topic and the payload
  \<^verbatim>\<open>"<username>: <message>"\<close>, whatever the status label has been showing and whatever the
  client library answers.  When that call raises, the exception is reported in an error
  dialog (\<^verbatim>\<open>Failed to publish: <e>\<close>) and in the status label (\<^verbatim>\<open>Publish error: <e>\<close>,
  as an error), the message field is kept and nothing else changes.  When the call
  returns, the status label gets \<^verbatim>\<open>Published to <topic>\<close>, the message field is cleared,
  no dialog is shown and nothing else changes.
\<close>

theorem publish_tweet_ignores_connection_state:
  assumes "strip (username_entry s) \<noteq> []" and "strip (tweet_text s @ [10]) \<noteq> []"
    and "normalize_topic (hashtag_entry s) \<noteq> []"
  shows "client (publish_tweet tr (s\<lparr>status_label := st\<rparr>)) =
           client s @ [Publish (normalize_topic (hashtag_entry s))
                         (strip (username_entry s) @ py '': '' @ strip (tweet_text s @ [10]))] \<and>
         (tr (client s) (Publish (normalize_topic (hashtag_entry s))
              (strip (username_entry s) @ py '': '' @ strip (tweet_text s @ [10]))) = Some e \<longrightarrow>
            publish_tweet tr s =
              s\<lparr>client := client s @ [Publish (normalize_topic (hashtag_entry s))
                     (strip (username_entry s) @ py '': '' @ strip (tweet_text s @ [10]))],
                tk := tk s @ [ShowError (py ''Publish error'')
                                (StrExn (py ''Failed to publish: '') e)],
                status_label := status_label s @ [(StrExn (py ''Publish error: '') e, True)]\<rparr>) \<and>
         (tr (client s) (Publish (normalize_topic (hashtag_entry s))
              (strip (username_entry s) @ py '': '' @ strip (tweet_text s @ [10]))) = None \<longrightarrow>
            publish_tweet tr s =
              s\<lparr>client := client s @ [Publish (normalize_topic (hashtag_entry s))
                     (strip (username_entry s) @ py '': '' @ strip (tweet_text s @ [10]))],
                status_label := status_label s @
                  [(Str (py ''Published to '' @ normalize_topic (hashtag_entry s)), False)],
                tweet_text := []\<rparr>)"
  using assms
  by (simp add: publish_tweet_def normalize_topic_strip client_call_def update_status_def
      messagebox_def Let_def split: option.splits)

text \<open>
  The theorem at a freshly started publisher in which the user has typed \<^verbatim>\<open>hi\<close>, with a
  status label that says \<^verbatim>\<open>Disconnected\<close>: once with a client library whose calls all
  raise (the call is made, the dialog and the error status appear, the message stays),
  once with one whose calls all return (the call is made, the status says published, the
  message field is cleared).
\<close>

theorem publish_tweet_ignores_connection_state_witness:
  "strip (username_entry (publisher_init\<lparr>tweet_text := py ''hi''\<rparr>)) \<noteq> [] \<and>
   strip (tweet_text (publisher_init\<lparr>tweet_text := py ''hi''\<rparr>) @ [10]) \<noteq> [] \<and>
   normalize_topic (hashtag_entry (publisher_init\<lparr>tweet_text := py ''hi''\<rparr>)) \<noteq> [] \<and>
   client (publish_tweet always_raise
      (publisher_init\<lparr>tweet_text := py ''hi'', status_label := [(Str (py ''Disconnected''), True)]\<rparr>)) =
     [Publish (py ''twitter/test'') (py ''anon_user: hi'')] \<and>
   always_raise [] (Publish (py ''twitter/test'') (py ''anon_user: hi'')) =
     Some (LibraryError (py ''boom'')) \<and>
   publish_tweet always_raise (publisher_init\<lparr>tweet_text := py ''hi''\<rparr>) =
     publisher_init
       \<lparr>tweet_text := py ''hi'',
        client := [Publish (py ''twitter/test'') (py ''anon_user: hi'')],
        tk := [ShowError (py ''Publish error'')
                 (StrExn (py ''Failed to publish: '') (LibraryError (py ''boom'')))],
        status_label := [(Str (py ''Disconnected''), True),
                         (StrExn (py ''Publish error: '') (LibraryError (py ''boom'')), True)]\<rparr> \<and>
   no_raise [] (Publish (py ''twitter/test'') (py ''anon_user: hi'')) = None \<and>
   publish_tweet no_raise (publisher_init\<lparr>tweet_text := py ''hi''\<rparr>) =
     publisher_init
       \<lparr>client := [Publish (py ''twitter/test'') (py ''anon_user: hi'')],
        status_label := [(Str (py ''Disconnected''), True),
                         (Str (py ''Published to twitter/test''), False)]\<rparr>"
proof -
  have p: "py ''anon_user'' @ py '': '' @ py ''hi'' = py ''anon_user: hi''"
    by (simp add: py_def)
  have q: "py ''Published to '' @ py ''twitter/test'' = py ''Published to twitter/test''"
    by (simp add: py_def)
  have n: "py ''anon_user'' \<noteq> [] \<and> py ''hi'' \<noteq> [] \<and> py ''twitter/test'' \<noteq> []"
    by (simp add: py_def)
  show ?thesis
    using n publish_tweet_ignores_connection_state
      [of "publisher_init\<lparr>tweet_text := py ''hi''\<rparr>" always_raise
          "[(Str (py ''Disconnected''), True)]" "LibraryError (py ''boom'')"]
      publish_tweet_ignores_connection_state
      [of "publisher_init\<lparr>tweet_text := py ''hi''\<rparr>" no_raise
          "[(Str (py ''Disconnected''), True)]" "LibraryError (py ''boom'')"]
    by (simp add: publisher_init_def twitter_test strip_anon_user strip_hi p q
        always_raise_def no_raise_def)
qed

text \<open>
  C4 as stated fails: a publisher that was never connected and has just received the
  disconnect callback still calls the client's \<^verbatim>\<open>publish\<close>.
\<close>

theorem publish_while_disconnected_counterexample:
  "client (publish_tweet no_raise (on_disconnect 0 (publisher_init\<lparr>tweet_text := py ''hi''\<rparr>))) =
     [Publish (py ''twitter/test'') (py ''anon_user: hi'')]"
  by (simp add: publish_tweet_def on_disconnect_def publisher_init_def update_status_def
      client_call_def no_raise_def messagebox_def normalize_topic_def py_def strip_def
      startswith_def isspace_def Let_def)


section \<open>Subscribing and unsubscribing (C6, C7, C8, C10)\<close>

lemma subscribe_init:
  "subscribe no_raise subscriber_init =
     subscriber_init\<lparr>client := [Subscribe (py ''twitter/test'')],
       subscribed := Dlist.insert (py ''twitter/test'') Dlist.empty,
       status_label := [(Str (py ''Disconnected''), True),
                        (Str (py ''Subscribed to twitter/test''), False)],
       msg_queue := [(py ''twitter/test'', py ''[System] Subscribed'')]\<rparr>"
  by (simp add: subscribe_def subscriber_init_def strip_hash_test twitter_test Dlist.member_def
      client_call_def no_raise_def update_status_def put_def Let_def)
     (simp add: py_def)

text \<open>
  C6.  A subscribe request for a topic that is in the subscribed set leaves the set as it
  is and calls nothing on the client; so a second subscribe request after one that has
  put the topic into the set changes nothing.  An unsubscribe request for a topic that
  is not in the set leaves the set as it is and calls nothing on the client.
\<close>

theorem subscription_changes_idempotent:
  "(Dlist.member (subscribed s) (normalize_topic (hashtag_entry s)) \<longrightarrow>
      subscribed (subscribe tr s) = subscribed s \<and> client (subscribe tr s) = client s) \<and>
   (\<not> Dlist.member (subscribed s) (normalize_topic (hashtag_entry s)) \<longrightarrow>
      subscribed (unsubscribe tr s) = subscribed s \<and> client (unsubscribe tr s) = client s) \<and>
   (Dlist.member (subscribed (subscribe tr s)) (normalize_topic (hashtag_entry s)) \<longrightarrow>
      subscribed (subscribe tr2 (subscribe tr s)) = subscribed (subscribe tr s))"
  by (auto simp: subscribe_def unsubscribe_def normalize_topic_strip messagebox_def Let_def
      client_call_def update_status_def put_def split: option.splits)

text \<open>
  The theorem at the subscriber that has subscribed to \<^verbatim>\<open>#test\<close> (a second subscribe) and
  at the freshly started subscriber (an unsubscribe of a topic that is not in the set).
\<close>

theorem subscription_changes_idempotent_witness:
  "Dlist.member (subscribed (subscribe no_raise subscriber_init))
     (normalize_topic (hashtag_entry (subscribe no_raise subscriber_init))) \<and>
   subscribed (subscribe no_raise (subscribe no_raise subscriber_init)) =
     subscribed (subscribe no_raise subscriber_init) \<and>
   \<not> Dlist.member (subscribed subscriber_init) (normalize_topic (hashtag_entry subscriber_init)) \<and>
   subscribed (unsubscribe no_raise subscriber_init) = subscribed subscriber_init"
  using subscription_changes_idempotent [of "subscribe no_raise subscriber_init" no_raise no_raise]
    subscription_changes_idempotent [of subscriber_init no_raise no_raise]
  by (simp add: subscribe_init)
     (simp add: subscriber_init_def twitter_test Dlist.member_def)

text \<open>
  C7.  When the hashtag in the entry normalises to the empty string, subscribe,
  unsubscribe and publish return without any call on the client, and subscribe and
  unsubscribe leave the subscribed set as it is.
\<close>

theorem empty_topic_rejected_before_io:
  assumes "normalize_topic (hashtag_entry s) = []" and "normalize_topic (hashtag_entry p) = []"
  shows "client (subscribe tr s) = client s \<and> subscribed (subscribe tr s) = subscribed s \<and>
         client (unsubscribe tr s) = client s \<and> subscribed (unsubscribe tr s) = subscribed s \<and>
         client (publish_tweet tr p) = client p"
  using assms
  by (simp add: subscribe_def unsubscribe_def publish_tweet_def normalize_topic_strip
      messagebox_def Let_def)

text \<open>
  The theorem at the hashtag \<^verbatim>\<open>"#"\<close> for the subscriber and at a blank hashtag for the
  publisher; both normalise to the empty string.
\<close>

theorem empty_topic_rejected_before_io_witness:
  "normalize_topic (py ''#'') = [] \<and> normalize_topic (py ''   '') = [] \<and>
   client (subscribe no_raise (subscriber_init\<lparr>hashtag_entry := py ''#''\<rparr>)) = [] \<and>
   subscribed (subscribe no_raise (subscriber_init\<lparr>hashtag_entry := py ''#''\<rparr>)) = Dlist.empty \<and>
   client (unsubscribe no_raise (subscriber_init\<lparr>hashtag_entry := py ''#''\<rparr>)) = [] \<and>
   subscribed (unsubscribe no_raise (subscriber_init\<lparr>hashtag_entry := py ''#''\<rparr>)) = Dlist.empty \<and>
   client (publish_tweet no_raise
     (publisher_init\<lparr>hashtag_entry := py ''   '', tweet_text := py ''hi''\<rparr>)) = []"
proof -
  have 1: "normalize_topic (py ''#'') = []"
    by (simp add: normalize_topic_def py_def strip_def startswith_def isspace_def)
  have 2: "normalize_topic (py ''   '') = []"
    by (simp add: normalize_topic_def py_def strip_def startswith_def isspace_def)
  show ?thesis
    using 1 2 empty_topic_rejected_before_io
      [of "subscriber_init\<lparr>hashtag_entry := py ''#''\<rparr>"
          "publisher_init\<lparr>hashtag_entry := py ''   '', tweet_text := py ''hi''\<rparr>" no_raise]
    by (simp add: subscriber_init_def publisher_init_def)
qed

text \<open>
  C8, as amended.  The subscriber keeps a plain set of topics and no inactive records: an
  unsubscribe request for a topic in the set, whose call on the client returns, removes
  the topic from the set.
\<close>

theorem unsubscribe_removes_topic:
  assumes "Dlist.member (subscribed s) (normalize_topic (hashtag_entry s))"
    and "normalize_topic (hashtag_entry s) \<noteq> []"
    and "tr (client s) (Unsubscribe (normalize_topic (hashtag_entry s))) = None"
  shows "subscribed (unsubscribe tr s) =
           Dlist.remove (normalize_topic (hashtag_entry s)) (subscribed s) \<and>
         \<not> Dlist.member (subscribed (unsubscribe tr s)) (normalize_topic (hashtag_entry s))"
  using assms
  by (simp add: unsubscribe_def normalize_topic_strip client_call_def set_remove_def
      update_status_def put_def Dlist.member_def Let_def)

text \<open>The theorem at the subscriber that has subscribed to \<^verbatim>\<open>#test\<close>.\<close>

theorem unsubscribe_removes_topic_witness:
  "Dlist.member (subscribed (subscribe no_raise subscriber_init))
     (normalize_topic (hashtag_entry (subscribe no_raise subscriber_init))) \<and>
   normalize_topic (hashtag_entry (subscribe no_raise subscriber_init)) \<noteq> [] \<and>
   no_raise (client (subscribe no_raise subscriber_init))
     (Unsubscribe (normalize_topic (hashtag_entry (subscribe no_raise subscriber_init)))) = None \<and>
   \<not> Dlist.member (subscribed (unsubscribe no_raise (subscribe no_raise subscriber_init)))
       (py ''twitter/test'')"
  using unsubscribe_removes_topic [of "subscribe no_raise subscriber_init" no_raise]
  by (simp add: subscribe_init)
     (simp add: subscriber_init_def twitter_test Dlist.member_def no_raise_def, simp add: py_def)

text \<open>
  C8 as stated fails: after a subscribe and an unsubscribe for \<^verbatim>\<open>#test\<close> the store is
  empty, so the record of the topic is gone and not kept as inactive.
\<close>

theorem unsubscribe_deletes_counterexample:
  "Dlist.member (subscribed (subscribe no_raise subscriber_init)) (py ''twitter/test'') \<and>
   subscribed (unsubscribe no_raise (subscribe no_raise subscriber_init)) = Dlist.empty"
  by (simp add: subscribe_init)
     (simp add: unsubscribe_def subscriber_init_def normalize_topic_def strip_def startswith_def
      isspace_def py_def Dlist.member_def client_call_def no_raise_def update_status_def put_def
      set_remove_def Let_def dlist_eq_iff)

text \<open>
  C10.  When the client's \<^verbatim>\<open>subscribe\<close> call for the topic of the request raises, the
  subscribed set and the queue after the subscribe request are what they were before it;
  likewise for \<^verbatim>\<open>unsubscribe\<close>.
\<close>

theorem failed_raw_call_leaves_set:
  "(tr (client s) (Subscribe (normalize_topic (hashtag_entry s))) \<noteq> None \<longrightarrow>
      subscribed (subscribe tr s) = subscribed s \<and> msg_queue (subscribe tr s) = msg_queue s) \<and>
   (tr (client s) (Unsubscribe (normalize_topic (hashtag_entry s))) \<noteq> None \<longrightarrow>
      subscribed (unsubscribe tr s) = subscribed s \<and> msg_queue (unsubscribe tr s) = msg_queue s)"
  by (auto simp: subscribe_def unsubscribe_def normalize_topic_strip messagebox_def Let_def
      client_call_def update_status_def unsubscribe_except_def)

text \<open>
  The theorem with a client library whose calls all raise: a subscribe request of the
  freshly started subscriber makes the call and adds nothing; an unsubscribe request
  after a successful subscribe makes the call and removes nothing.
\<close>

theorem failed_raw_call_leaves_set_witness:
  "always_raise (client subscriber_init)
     (Subscribe (normalize_topic (hashtag_entry subscriber_init))) \<noteq> None \<and>
   client (subscribe always_raise subscriber_init) = [Subscribe (py ''twitter/test'')] \<and>
   subscribed (subscribe always_raise subscriber_init) = Dlist.empty \<and>
   always_raise (client (subscribe no_raise subscriber_init))
     (Unsubscribe (normalize_topic (hashtag_entry (subscribe no_raise subscriber_init)))) \<noteq> None \<and>
   client (unsubscribe always_raise (subscribe no_raise subscriber_init)) =
     [Subscribe (py ''twitter/test''), Unsubscribe (py ''twitter/test'')] \<and>
   Dlist.member (subscribed (unsubscribe always_raise (subscribe no_raise subscriber_init)))
     (py ''twitter/test'')"
proof -
  have 1: "client (subscribe always_raise subscriber_init) = [Subscribe (py ''twitter/test'')]"
    by (simp add: subscribe_def subscriber_init_def strip_hash_test twitter_test Dlist.member_def
        client_call_def always_raise_def update_status_def messagebox_def Let_def)
       (simp add: py_def)
  have 2: "client (unsubscribe always_raise (subscribe no_raise subscriber_init)) =
             [Subscribe (py ''twitter/test''), Unsubscribe (py ''twitter/test'')]"
    by (simp add: subscribe_init)
       (simp add: unsubscribe_def subscriber_init_def strip_hash_test twitter_test Dlist.member_def
        client_call_def always_raise_def update_status_def messagebox_def unsubscribe_except_def
        Let_def, simp add: py_def)
  show ?thesis
    using 1 2 failed_raw_call_leaves_set [of always_raise subscriber_init]
      failed_raw_call_leaves_set [of always_raise "subscribe no_raise subscriber_init"]
    by (simp add: always_raise_def)
       (simp add: subscribe_init, simp add: subscriber_init_def Dlist.member_def)
qed

end
